theory Spec2Isabelle
  imports Complex_Main "HOL-Library.Code_Target_Nat" "HOL-Library.Product_Lexorder" "HOL-Library.Sublist" "HOL-Library.Multiset"
begin

section \<open>Exceptions, requests and the outside world\<close>

text \<open>
  The module \<open>brFinance/scraper/bacen/search.py\<close> has three classes, each a fetch step followed
  by a cleaning step. Every \<open>raise\<close> and every failed \<open>assert\<close> of the module, and every
  exception of a library call it makes, is a value of \<open>exn\<close>; an operation returns
  \<open>exn + 'a\<close> with \<open>Inl\<close> for the exception.
\<close>

datatype exn =
    AssertionError string
  | TypeError string
  | ValueError string
  | Exception string
  | ParserError string
  | HTTPError nat string
  | URLError string
  | ConnectionError string

text \<open>
  An operation that talks to the network takes the list of URLs requested so far and returns
  it extended by the requests it made, oldest first.
\<close>

type_synonym trace = "string list"

section \<open>Text of numbers\<close>

definition digit_char :: "nat \<Rightarrow> char" where
  "digit_char n = ''0123456789'' ! (n mod 10)"

definition is_digit :: "char \<Rightarrow> bool" where
  "is_digit c = (c \<in> set ''0123456789'')"

definition digit_val :: "char \<Rightarrow> nat" where
  "digit_val c = of_char c - 48"

text \<open>Python's \<open>str\<close> of a non-negative and of an arbitrary integer.\<close>

fun str_nat :: "nat \<Rightarrow> string" where
  "str_nat n = (if n < 10 then [digit_char n] else str_nat (n div 10) @ [digit_char (n mod 10)])"

declare str_nat.simps [simp del]

definition str_int :: "int \<Rightarrow> string" where
  "str_int i = (if i < 0 then CHR ''-'' # str_nat (nat (- i)) else str_nat (nat i))"

text \<open>
  \<open>str.zfill(width)\<close>: a string at least \<open>width\<close> long is returned as it is; otherwise zeros
  are inserted on the left, after a leading sign character if there is one.
\<close>

definition zfill :: "nat \<Rightarrow> string \<Rightarrow> string" where
  "zfill width s =
     (if width \<le> length s then s
      else case s of
             c # r \<Rightarrow> if c = CHR ''+'' \<or> c = CHR ''-''
                      then c # replicate (width - length s) CHR ''0'' @ r
                      else replicate (width - length s) CHR ''0'' @ s
           | [] \<Rightarrow> replicate width CHR ''0'')"

text \<open>The value of a run of decimal digits, most significant first.\<close>

definition digits_val :: "string \<Rightarrow> nat" where
  "digits_val s = foldl (\<lambda>a c. 10 * a + digit_val c) 0 s"

section \<open>Dates\<close>

text \<open>
  A \<open>datetime.date\<close> is (year, month, day), a \<open>datetime.datetime\<close> adds
  (hour, minute, second, microsecond); both compare field by field in that order, which is
  the lexicographic order of the tuples.
\<close>

type_synonym date = "nat \<times> nat \<times> nat"
type_synonym time_of_day = "nat \<times> nat \<times> nat \<times> nat"
type_synonym datetime = "date \<times> time_of_day"

definition year_of :: "date \<Rightarrow> nat" where "year_of d = fst d"
definition month_of :: "date \<Rightarrow> nat" where "month_of d = fst (snd d)"
definition day_of :: "date \<Rightarrow> nat" where "day_of d = snd (snd d)"

definition is_leap :: "nat \<Rightarrow> bool" where
  "is_leap y = (y mod 4 = 0 \<and> (y mod 100 \<noteq> 0 \<or> y mod 400 = 0))"

definition days_in_month :: "nat \<Rightarrow> nat \<Rightarrow> nat" where
  "days_in_month y m =
     (if m = 2 then (if is_leap y then 29 else 28)
      else if m \<in> {4, 6, 9, 11} then 30 else 31)"

definition valid_date :: "date \<Rightarrow> bool" where
  "valid_date d =
     (1 \<le> year_of d \<and> year_of d \<le> 9999 \<and> 1 \<le> month_of d \<and> month_of d \<le> 12 \<and>
      1 \<le> day_of d \<and> day_of d \<le> days_in_month (year_of d) (month_of d))"

text \<open>\<open>strftime\<close> with the two formats the module uses, fields zero-padded.\<close>

definition strftime_dmY_slash :: "date \<Rightarrow> string" where
  "strftime_dmY_slash d =
     zfill 2 (str_nat (day_of d)) @ ''/'' @ zfill 2 (str_nat (month_of d)) @ ''/'' @
     zfill 4 (str_nat (year_of d))"

definition strftime_Ymd :: "date \<Rightarrow> string" where
  "strftime_Ymd d =
     zfill 4 (str_nat (year_of d)) @ zfill 2 (str_nat (month_of d)) @
     zfill 2 (str_nat (day_of d))"

section \<open>SearchCurrencyPrice: construction\<close>

record SearchCurrencyPrice =
  currency_code :: int
  initial_date :: string
  final_date :: string

text \<open>
  \<open>__init__\<close> asserts \<open>final_date > initial_date\<close> and then stores the code and the two dates
  formatted day/month/year. It requests nothing: the trace comes back as it went in.
\<close>

definition SearchCurrencyPrice_init ::
  "int \<Rightarrow> date \<Rightarrow> date \<Rightarrow> trace \<Rightarrow> (exn + SearchCurrencyPrice) \<times> trace" where
  "SearchCurrencyPrice_init code initial final tr =
     (if final > initial
      then (Inr \<lparr>currency_code = code,
                 initial_date = strftime_dmY_slash initial,
                 final_date = strftime_dmY_slash final\<rparr>, tr)
      else (Inl (AssertionError ''Final date is earlier than initial date''), tr))"

section \<open>Parsed pages and tables\<close>

text \<open>
  What the HTML parser hands to the module: a tree of tags, each with its name, its attribute
  dictionary and its children, and of text nodes. \<open>find_all\<close> searches all descendants of the
  document, a tag before its own children and children left to right; \<open>get_text\<close> joins all
  text below a tag; \<open>get\<close> looks an attribute up and yields \<open>None\<close> when it is absent.
\<close>

datatype node = Tag string "(string \<times> string) list" "node list" | NavigableString string

fun get_text :: "node \<Rightarrow> string" where
  "get_text (NavigableString s) = s"
| "get_text (Tag name attrs contents) = concat (map get_text contents)"

fun get :: "node \<Rightarrow> string \<Rightarrow> string option" where
  "get (NavigableString s) k = None"
| "get (Tag name attrs contents) k = map_of attrs k"

fun find_in :: "string \<Rightarrow> node \<Rightarrow> node list" where
  "find_in wanted (NavigableString s) = []"
| "find_in wanted (Tag name attrs contents) =
     (if name = wanted then [Tag name attrs contents] else []) @
     concat (map (find_in wanted) contents)"

definition find_all :: "node list \<Rightarrow> string \<Rightarrow> node list" where
  "find_all soup wanted = concat (map (find_in wanted) soup)"

text \<open>
  A row key as \<open>read_csv\<close> delivers it: an integer when the column read as numbers (leading
  zeros are then gone), text otherwise. \<open>py_str\<close> is Python's \<open>str\<close> on it.
\<close>

datatype key = KInt int | KStr string

fun py_str :: "key \<Rightarrow> string" where
  "py_str (KInt i) = str_int i"
| "py_str (KStr s) = s"

text \<open>
  A row of the range table. The cleaning step replaces the index and two columns in place, so
  the raw and the cleaned row are the same record at different cell types. A text cell is the
  value of \<open>astype(str)\<close> on it.
\<close>

record ('i, 'n) rate_row =
  Date :: 'i
  Tipo :: string
  Moeda :: string
  Compra :: 'n
  Venda :: 'n

text \<open>A row of the daily snapshot, and a table that carries its column names.\<close>

record ('d, 'n) snapshot_row =
  Reference_Date :: 'd
  Codigo :: string
  Tipo_snapshot :: string
  Moeda_snapshot :: string
  Cotacoes_em_Real_Compra :: 'n
  Cotacoes_em_Real_Venda :: 'n
  Paridade_Compra :: 'n
  Paridade_Venda :: 'n

record 'r dataframe =
  index_name :: "string option"
  columns :: "string list"
  rows :: "'r list"

text \<open>
  The servers. Each answer may depend on how many requests were made before, so nothing in the
  model lets two requests for one URL share an answer. \<open>requests_get\<close> yields the parsed body
  whatever the status (the module does not look at the status) or the exception of the
  transport; the two \<open>read_csv\<close> calls yield the raw rows or the exception raised.
\<close>

record world =
  requests_get :: "nat \<Rightarrow> string \<Rightarrow> exn + node list"
  read_csv_range :: "nat \<Rightarrow> string \<Rightarrow> exn + (key, string) rate_row list"
  read_csv_snapshot :: "nat \<Rightarrow> string \<Rightarrow> exn + (string, string) snapshot_row list"

section \<open>SearchAvailableCurrencies\<close>

definition catalog_url :: string where
  "catalog_url =
     ''https://ptax.bcb.gov.br/ptax_internet/consultaBoletim.do?method=exibeFormularioConsultaBoletim''"

definition SearchAvailableCurrencies_fetch_data ::
  "world \<Rightarrow> trace \<Rightarrow> (exn + node list) \<times> trace" where
  "SearchAvailableCurrencies_fetch_data w tr =
     (requests_get w (length tr) catalog_url, tr @ [catalog_url])"

record currency =
  Currency :: string
  Code :: "string option"

definition SearchAvailableCurrencies_clean_data :: "node list \<Rightarrow> currency list" where
  "SearchAvailableCurrencies_clean_data page =
     (let options = find_all page ''option'';
          options_dict = map (\<lambda>option. (get_text option, get option ''value'')) options
      in map (\<lambda>(text, v). \<lparr>Currency = text, Code = v\<rparr>) options_dict)"

definition get_available_currencies :: "world \<Rightarrow> trace \<Rightarrow> (exn + currency list) \<times> trace" where
  "get_available_currencies w tr =
     (case SearchAvailableCurrencies_fetch_data w tr of
        (Inl e, tr') \<Rightarrow> (Inl e, tr')
      | (Inr page, tr') \<Rightarrow> (Inr (SearchAvailableCurrencies_clean_data page), tr'))"

section \<open>SearchCurrencyPrice: fetching\<close>

definition range_url :: "SearchCurrencyPrice \<Rightarrow> string" where
  "range_url self =
     ''https://ptax.bcb.gov.br/ptax_internet/consultaBoletim.do?method=gerarCSVFechamentoMoedaNoPeriodo''
     @ ''&ChkMoeda='' @ str_int (currency_code self)
     @ ''&DATAINI='' @ initial_date self @ ''&DATAFIM='' @ final_date self"

definition availability_url :: string where
  "availability_url = ''https://www.bcb.gov.br/estabilidadefinanceira/historicocotacoes''"

definition parse_failure_message :: string where
  "parse_failure_message =
     ''An error occurred when parsing data. Check if currency is available at '' @ availability_url"

text \<open>Only \<open>ParserError\<close> is caught and replaced; any other exception goes through.\<close>

definition SearchCurrencyPrice_fetch_data ::
  "world \<Rightarrow> SearchCurrencyPrice \<Rightarrow> trace \<Rightarrow> (exn + (key, string) rate_row list) \<times> trace" where
  "SearchCurrencyPrice_fetch_data w self tr =
     (let url = range_url self
      in (case read_csv_range w (length tr) url of
            Inl (ParserError m) \<Rightarrow> Inl (Exception parse_failure_message)
          | Inl e \<Rightarrow> Inl e
          | Inr df \<Rightarrow> Inr df,
          tr @ [url]))"

definition check_if_code_exists ::
  "world \<Rightarrow> SearchCurrencyPrice \<Rightarrow> trace \<Rightarrow> (exn + bool) \<times> trace" where
  "check_if_code_exists w self tr =
     (case get_available_currencies w tr of
        (Inl e, tr') \<Rightarrow> (Inl e, tr')
      | (Inr df, tr') \<Rightarrow>
          (Inr (length (filter (\<lambda>r. Code r = Some (str_int (currency_code self))) df) \<noteq> 0), tr'))"

section \<open>Coercion to dates\<close>

text \<open>
  \<open>to_datetime(..., format=..., errors='coerce')\<close> matches each text against the regular
  expression of the format. The directives are tried as the expression writes them,
  \<open>%d\<close> as \<open>3[0-1]|[1-2]\d|0[1-9]|[1-9]| [1-9]\<close>, \<open>%m\<close> as \<open>1[0-2]|0[1-9]|[1-9]\<close> and
  \<open>%Y\<close> as four digits; each function lists the ways its directive matches a prefix of the
  text, first alternative first, with the text left over.
\<close>

datatype timestamp = Timestamp date | NaT

definition match_d :: "string \<Rightarrow> (nat \<times> string) list" where
  "match_d s =
     (case s of
        c1 # c2 # r \<Rightarrow>
          (if c1 = CHR ''3'' \<and> c2 \<in> set ''01'' then [(30 + digit_val c2, r)] else []) @
          (if c1 \<in> set ''12'' \<and> is_digit c2 then [(10 * digit_val c1 + digit_val c2, r)] else []) @
          (if c1 = CHR ''0'' \<and> c2 \<in> set ''123456789'' then [(digit_val c2, r)] else []) @
          (if c1 \<in> set ''123456789'' then [(digit_val c1, c2 # r)] else []) @
          (if c1 = CHR '' '' \<and> c2 \<in> set ''123456789'' then [(digit_val c2, r)] else [])
      | [c1] \<Rightarrow> (if c1 \<in> set ''123456789'' then [(digit_val c1, [])] else [])
      | [] \<Rightarrow> [])"

definition match_m :: "string \<Rightarrow> (nat \<times> string) list" where
  "match_m s =
     (case s of
        c1 # c2 # r \<Rightarrow>
          (if c1 = CHR ''1'' \<and> c2 \<in> set ''012'' then [(10 + digit_val c2, r)] else []) @
          (if c1 = CHR ''0'' \<and> c2 \<in> set ''123456789'' then [(digit_val c2, r)] else []) @
          (if c1 \<in> set ''123456789'' then [(digit_val c1, c2 # r)] else [])
      | [c1] \<Rightarrow> (if c1 \<in> set ''123456789'' then [(digit_val c1, [])] else [])
      | [] \<Rightarrow> [])"

definition match_Y :: "string \<Rightarrow> (nat \<times> string) list" where
  "match_Y s =
     (if 4 \<le> length s \<and> list_all is_digit (take 4 s)
      then [(digits_val (take 4 s), drop 4 s)] else [])"

definition match_lit :: "char \<Rightarrow> string \<Rightarrow> string list" where
  "match_lit c s = (case s of x # r \<Rightarrow> if x = c then [r] else [] | [] \<Rightarrow> [])"

text \<open>All matches of a format against a prefix of the text, in backtracking order.\<close>

definition regex_dmY :: "string \<Rightarrow> (date \<times> string) list" where
  "regex_dmY s =
     concat (map (\<lambda>(d, r1). concat (map (\<lambda>(m, r2). map (\<lambda>(y, r3). ((y, m, d), r3))
       (match_Y r2)) (match_m r1))) (match_d s))"

definition regex_dmY_slash :: "string \<Rightarrow> (date \<times> string) list" where
  "regex_dmY_slash s =
     concat (map (\<lambda>(d, r1). concat (map (\<lambda>r1'. concat (map (\<lambda>(m, r2).
       concat (map (\<lambda>r2'. map (\<lambda>(y, r3). ((y, m, d), r3)) (match_Y r2'))
         (match_lit CHR ''/'' r2))) (match_m r1'))) (match_lit CHR ''/'' r1))) (match_d s))"

definition nat_strings :: "string list" where
  "nat_strings = [''NaT'', ''nat'', ''NAT'', ''nan'', ''NaN'', ''NAN'']"

text \<open>
  The range of the nanosecond timestamp at midnight: 1677-09-22 to 2262-04-11.
\<close>

definition in_timestamp_bounds :: "date \<Rightarrow> bool" where
  "in_timestamp_bounds d = ((1677, 9, 22) \<le> d \<and> d \<le> (2262, 4, 11))"

text \<open>
  One cell: the first match is taken; text left over after it, a day the month does not
  have, or a date outside the timestamp range each give \<open>NaT\<close> under \<open>errors='coerce'\<close>.
\<close>

definition strptime_coerce :: "(string \<Rightarrow> (date \<times> string) list) \<Rightarrow> string \<Rightarrow> timestamp" where
  "strptime_coerce regex val =
     (if val \<in> set nat_strings then NaT
      else case regex val of
             [] \<Rightarrow> NaT
           | (d, rest) # others \<Rightarrow>
               if rest \<noteq> [] then NaT
               else if \<not> valid_date d then NaT
               else if \<not> in_timestamp_bounds d then NaT
               else Timestamp d)"

definition to_datetime_coerce ::
  "(string \<Rightarrow> (date \<times> string) list) \<Rightarrow> string list \<Rightarrow> timestamp list" where
  "to_datetime_coerce regex vals = map (strptime_coerce regex) vals"

section \<open>Coercion to numbers\<close>

text \<open>
  A parsed number is kept as the exact value of its decimal text; the table stores the
  double nearest to it. \<open>NaN\<close> is the missing-value marker.
\<close>

datatype float64 = Finite rat | PosInf | NegInf | NaN

definition is_space :: "char \<Rightarrow> bool" where
  "is_space c = (c \<in> set [CHR '' '', CHR 0x09, CHR 0x0A, CHR 0x0B, CHR 0x0C, CHR 0x0D])"

definition strip :: "string \<Rightarrow> string" where
  "strip s = rev (dropWhile is_space (rev (dropWhile is_space s)))"

definition parse_sign :: "string \<Rightarrow> bool \<times> string" where
  "parse_sign s =
     (case s of
        c # r \<Rightarrow> if c = CHR ''-'' then (True, r) else if c = CHR ''+'' then (False, r) else (False, s)
      | [] \<Rightarrow> (False, []))"

text \<open>What follows the mantissa: nothing, or \<open>e\<close>, an optional sign and at least one digit.\<close>

definition parse_exponent :: "string \<Rightarrow> int option" where
  "parse_exponent s =
     (case s of
        [] \<Rightarrow> Some 0
      | c # r \<Rightarrow>
          if c = CHR ''e'' \<or> c = CHR ''E''
          then (let (neg, ds) = parse_sign r
                in if ds \<noteq> [] \<and> list_all is_digit ds
                   then Some (if neg then - int (digits_val ds) else int (digits_val ds))
                   else None)
          else None)"

definition scale10 :: "rat \<Rightarrow> int \<Rightarrow> rat" where
  "scale10 x k = (if 0 \<le> k then x * 10 ^ nat k else x / 10 ^ nat (- k))"

definition to_double :: "string \<Rightarrow> rat option" where
  "to_double s =
     (let (neg, r0) = parse_sign (strip s);
          ip = takeWhile is_digit r0;
          r1 = dropWhile is_digit r0;
          (fp, r2) = (case r1 of
                        c # r \<Rightarrow> if c = CHR ''.'' then (takeWhile is_digit r, dropWhile is_digit r)
                                 else ([], r1)
                      | [] \<Rightarrow> ([], []))
      in if ip = [] \<and> fp = [] then None
         else case parse_exponent r2 of
                None \<Rightarrow> None
              | Some e \<Rightarrow>
                  Some (scale10 ((if neg then - 1 else 1) * of_nat (digits_val (ip @ fp)))
                          (e - int (length fp))))"

definition lower :: "string \<Rightarrow> string" where
  "lower s =
     map (\<lambda>c. if c \<in> set ''ABCDEFGHIJKLMNOPQRSTUVWXYZ'' then char_of (of_char c + (32::nat)) else c) s"

text \<open>
  One text cell of \<open>to_numeric\<close>: the empty text is missing, a decimal literal is its value,
  the words for not-a-number and infinity are recognised in any case, everything else is
  unparsable (\<open>None\<close>).
\<close>

definition numeric_of_str :: "string \<Rightarrow> float64 option" where
  "numeric_of_str s =
     (if s = [] then Some NaN
      else case to_double s of
             Some q \<Rightarrow> Some (Finite q)
           | None \<Rightarrow>
               (let l = lower s
                in if l = ''nan'' then Some NaN
                   else if l \<in> set [''inf'', ''+inf'', ''infinity'', ''+infinity''] then Some PosInf
                   else if l \<in> set [''-inf'', ''-infinity''] then Some NegInf
                   else None))"

definition unable_to_parse :: "string \<Rightarrow> nat \<Rightarrow> string" where
  "unable_to_parse s pos =
     ''Unable to parse string '' @ [CHR 0x22] @ s @ [CHR 0x22] @ '' at position '' @ str_nat pos"

text \<open>
  \<open>to_numeric\<close> of a column with the default \<open>errors='raise'\<close> stops at the first unparsable
  cell; with \<open>errors='coerce'\<close> such a cell becomes \<open>NaN\<close>.
\<close>

fun to_numeric_raise :: "nat \<Rightarrow> string list \<Rightarrow> exn + float64 list" where
  "to_numeric_raise pos [] = Inr []"
| "to_numeric_raise pos (s # ss) =
     (case numeric_of_str s of
        None \<Rightarrow> Inl (ValueError (unable_to_parse s pos))
      | Some v \<Rightarrow> (case to_numeric_raise (Suc pos) ss of
                     Inl e \<Rightarrow> Inl e
                   | Inr vs \<Rightarrow> Inr (v # vs)))"

definition to_numeric_coerce :: "string list \<Rightarrow> float64 list" where
  "to_numeric_coerce ss = map (\<lambda>s. case numeric_of_str s of None \<Rightarrow> NaN | Some v \<Rightarrow> v) ss"

text \<open>\<open>.str.replace(',', '.')\<close> on one cell.\<close>

definition str_replace_comma :: "string \<Rightarrow> string" where
  "str_replace_comma s = map (\<lambda>c. if c = CHR '','' then CHR ''.'' else c) s"

section \<open>SearchCurrencyPrice: cleaning and the whole query\<close>

text \<open>
  \<open>sort_index\<close> leaves a table whose index already increases as it is; otherwise the rows
  with a date are put in ascending order of the date and the rows without one follow them in
  their old order (\<open>na_position='last'\<close>). Rows with equal dates are kept here in their old
  order; no result below depends on that.
\<close>

definition stamp_key :: "timestamp \<Rightarrow> date" where
  "stamp_key t = (case t of Timestamp d \<Rightarrow> d | NaT \<Rightarrow> (0, 0, 0))"

definition is_monotonic_increasing :: "timestamp list \<Rightarrow> bool" where
  "is_monotonic_increasing idx = (NaT \<notin> set idx \<and> sorted (map stamp_key idx))"

definition sort_index :: "(timestamp, 'n) rate_row list \<Rightarrow> (timestamp, 'n) rate_row list" where
  "sort_index df =
     (if is_monotonic_increasing (map Date df) then df
      else sort_key (\<lambda>r. stamp_key (Date r)) (filter (\<lambda>r. Date r \<noteq> NaT) df) @
           filter (\<lambda>r. Date r = NaT) df)"

definition SearchCurrencyPrice_clean_data ::
  "(key, string) rate_row list \<Rightarrow> exn + (timestamp, float64) rate_row list" where
  "SearchCurrencyPrice_clean_data df =
     (let index = to_datetime_coerce regex_dmY (map (\<lambda>x. zfill 8 (py_str x)) (map Date df))
      in case to_numeric_raise 0 (map str_replace_comma (map Compra df)) of
           Inl e \<Rightarrow> Inl e
         | Inr compra \<Rightarrow>
             (case to_numeric_raise 0 (map str_replace_comma (map Venda df)) of
                Inl e \<Rightarrow> Inl e
              | Inr venda \<Rightarrow>
                  Inr (sort_index
                    (map (\<lambda>(r, i, c, v).
                            \<lparr>Date = i, Tipo = Tipo r, Moeda = Moeda r, Compra = c, Venda = v\<rparr>)
                       (zip df (zip index (zip compra venda)))))))"

definition get_data ::
  "world \<Rightarrow> SearchCurrencyPrice \<Rightarrow> trace \<Rightarrow> (exn + (timestamp, float64) rate_row list) \<times> trace" where
  "get_data w self tr =
     (case check_if_code_exists w self tr of
        (Inl e, tr1) \<Rightarrow> (Inl e, tr1)
      | (Inr exists, tr1) \<Rightarrow>
          if \<not> exists then (Inl (AssertionError ''Currency code does not exist''), tr1)
          else (case SearchCurrencyPrice_fetch_data w self tr1 of
                  (Inl e, tr2) \<Rightarrow> (Inl e, tr2)
                | (Inr pure_df, tr2) \<Rightarrow> (SearchCurrencyPrice_clean_data pure_df, tr2)))"

text \<open>The order the result is sorted by: dates ascending, \<open>NaT\<close> after every date.\<close>

fun nat_last_le :: "timestamp \<Rightarrow> timestamp \<Rightarrow> bool" where
  "nat_last_le (Timestamp a) (Timestamp b) = (a \<le> b)"
| "nat_last_le x NaT = True"
| "nat_last_le NaT (Timestamp b) = False"

section \<open>SearchAllCurrenciesPrices\<close>

text \<open>
  The argument of the constructor is a \<open>datetime.date\<close> or its subclass
  \<open>datetime.datetime\<close>. Ordering a plain date against a datetime raises \<open>TypeError\<close>.
\<close>

datatype pydate = PyDate date | PyDateTime datetime

fun date_part :: "pydate \<Rightarrow> date" where
  "date_part (PyDate d) = d"
| "date_part (PyDateTime dt) = fst dt"

definition le_datetime :: "pydate \<Rightarrow> datetime \<Rightarrow> exn + bool" where
  "le_datetime x now =
     (case x of
        PyDateTime dt \<Rightarrow> Inr (dt \<le> now)
      | PyDate d \<Rightarrow>
          Inl (TypeError (''can'' @ [CHR 0x27] @ ''t compare datetime.datetime to datetime.date'')))"

record SearchAllCurrenciesPrices =
  reference_date :: string

text \<open>
  The default of \<open>reference_date\<close> is the expression \<open>datetime.datetime.now()\<close> in the
  \<open>def\<close> line, which Python evaluates once, when the class body runs: \<open>defined_at\<close> is
  that moment. The assertion reads the clock again at the call: \<open>now\<close>.
\<close>

definition SearchAllCurrenciesPrices_init ::
  "datetime \<Rightarrow> pydate option \<Rightarrow> datetime \<Rightarrow> trace \<Rightarrow> (exn + SearchAllCurrenciesPrices) \<times> trace" where
  "SearchAllCurrenciesPrices_init defined_at arg now tr =
     (let reference_date = (case arg of None \<Rightarrow> PyDateTime defined_at | Some d \<Rightarrow> d)
      in case le_datetime reference_date now of
           Inl e \<Rightarrow> (Inl e, tr)
         | Inr ok \<Rightarrow>
             if ok then (Inr \<lparr>reference_date = strftime_Ymd (date_part reference_date)\<rparr>, tr)
             else (Inl (AssertionError ''Final date is should be earlier than today''), tr))"

text \<open>\<open>str\<close> of an exception.\<close>

fun str_exn :: "exn \<Rightarrow> string" where
  "str_exn (HTTPError code msg) = ''HTTP Error '' @ str_nat code @ '': '' @ msg"
| "str_exn (URLError reason) = ''<urlopen error '' @ reason @ ''>''"
| "str_exn (AssertionError m) = m"
| "str_exn (TypeError m) = m"
| "str_exn (ValueError m) = m"
| "str_exn (Exception m) = m"
| "str_exn (ParserError m) = m"
| "str_exn (ConnectionError m) = m"

definition snapshot_columns :: "string list" where
  "snapshot_columns =
     [''Reference Date'',
      ''C'' @ [CHR 0xF3] @ ''digo'',
      ''Tipo'',
      ''Moeda'',
      ''Cota'' @ [CHR 0xE7, CHR 0xF5] @ ''es em Real - Compra'',
      ''Cota'' @ [CHR 0xE7, CHR 0xF5] @ ''es em Real - Venda'',
      ''Paridade - Compra'',
      ''Paridade - Venda'']"

definition snapshot_url :: "SearchAllCurrenciesPrices \<Rightarrow> string" where
  "snapshot_url self =
     ''https://www4.bcb.gov.br/Download/fechamento/'' @ reference_date self @ ''.csv''"

text \<open>
  The table starts empty with the eight columns. An exception of \<open>read_csv\<close> whose text
  contains \<open>HTTP Error 404: Not Found\<close> is swallowed and the empty table returned; any other
  exception is raised again as it is. The two \<open>print\<close> calls are left out.
\<close>

definition SearchAllCurrenciesPrices_fetch_data ::
  "world \<Rightarrow> SearchAllCurrenciesPrices \<Rightarrow> trace \<Rightarrow>
     (exn + (string, string) snapshot_row dataframe) \<times> trace" where
  "SearchAllCurrenciesPrices_fetch_data w self tr =
     (let url = snapshot_url self;
          df = \<lparr>index_name = None, columns = snapshot_columns, rows = []\<rparr>
      in (case read_csv_snapshot w (length tr) url of
            Inr rs \<Rightarrow> Inr \<lparr>index_name = None, columns = snapshot_columns, rows = rs\<rparr>
          | Inl exc \<Rightarrow>
              if sublist ''HTTP Error 404: Not Found'' (str_exn exc) then Inr df else Inl exc,
          tr @ [url]))"

definition SearchAllCurrenciesPrices_clean_data ::
  "(string, string) snapshot_row dataframe \<Rightarrow> (timestamp, float64) snapshot_row dataframe" where
  "SearchAllCurrenciesPrices_clean_data df =
     (let dates = to_datetime_coerce regex_dmY_slash (map Reference_Date (rows df));
          num = (\<lambda>col. to_numeric_coerce (map str_replace_comma (map col (rows df))));
          c1 = num Cotacoes_em_Real_Compra;
          c2 = num Cotacoes_em_Real_Venda;
          c3 = num Paridade_Compra;
          c4 = num Paridade_Venda
      in \<lparr>index_name = Some ''Reference Date'',
          columns = filter (\<lambda>c. c \<noteq> ''Reference Date'') (columns df),
          rows = map (\<lambda>(r, d, a, b, c, e).
                       \<lparr>Reference_Date = d, Codigo = Codigo r, Tipo_snapshot = Tipo_snapshot r,
                        Moeda_snapshot = Moeda_snapshot r,
                        Cotacoes_em_Real_Compra = a, Cotacoes_em_Real_Venda = b,
                        Paridade_Compra = c, Paridade_Venda = e\<rparr>)
                   (zip (rows df) (zip dates (zip c1 (zip c2 (zip c3 c4)))))\<rparr>)"

definition get_prices ::
  "world \<Rightarrow> SearchAllCurrenciesPrices \<Rightarrow> trace \<Rightarrow>
     (exn + (timestamp, float64) snapshot_row dataframe) \<times> trace" where
  "get_prices w self tr =
     (case SearchAllCurrenciesPrices_fetch_data w self tr of
        (Inl e, tr') \<Rightarrow> (Inl e, tr')
      | (Inr pure_df, tr') \<Rightarrow> (Inr (SearchAllCurrenciesPrices_clean_data pure_df), tr'))"

section \<open>Notions used to state the results\<close>

text \<open>
  Document order: a node comes before everything below it, and the children of a tag come
  left to right.
\<close>

fun subtree :: "node \<Rightarrow> node list" where
  "subtree (NavigableString s) = [NavigableString s]"
| "subtree (Tag name attrs contents) = Tag name attrs contents # concat (map subtree contents)"

definition document_order :: "node list \<Rightarrow> node list" where
  "document_order soup = concat (map subtree soup)"

fun is_named :: "string \<Rightarrow> node \<Rightarrow> bool" where
  "is_named wanted (Tag name attrs contents) = (name = wanted)"
| "is_named wanted (NavigableString s) = False"

text \<open>The row key of a date: day, month and year as eight digits.\<close>

definition key_text :: "date \<Rightarrow> string" where
  "key_text d =
     zfill 2 (str_nat (day_of d)) @ zfill 2 (str_nat (month_of d)) @ zfill 4 (str_nat (year_of d))"

text \<open>
  What the cleaning step of the range query makes of one row key: its text, padded to eight
  characters, coerced to a date.
\<close>

definition coerced_key :: "key \<Rightarrow> timestamp" where
  "coerced_key k = strptime_coerce regex_dmY (zfill 8 (py_str k))"

text \<open>The number such a key becomes when the column is read as integers.\<close>

definition key_number :: "date \<Rightarrow> int" where
  "key_number d = int (day_of d * 1000000 + month_of d * 10000 + year_of d)"

subsection \<open>A page, some rows and some servers to run the operations on\<close>

definition example_page :: "node list" where
  "example_page =
     [Tag ''html'' []
        [Tag ''body'' []
           [NavigableString ''Moeda: '',
            Tag ''select'' [(''name'', ''ChkMoeda'')]
              [Tag ''option'' [(''value'', ''220'')] [NavigableString ''DOLAR DOS EUA''],
               Tag ''option'' [(''value'', ''978'')] [NavigableString ''EURO'']]]]]"

definition example_rows :: "(key, string) rate_row list" where
  "example_rows =
     [\<lparr>Date = KInt 4012021, Tipo = ''A'', Moeda = ''USD'', Compra = ''5,1620'', Venda = ''5,1626''\<rparr>,
      \<lparr>Date = KStr ''99999999'', Tipo = ''A'', Moeda = ''USD'', Compra = ''5,2000'', Venda = ''5,2006''\<rparr>,
      \<lparr>Date = KInt 1012021, Tipo = ''A'', Moeda = ''USD'', Compra = ''5,1967'', Venda = ''5,1973''\<rparr>]"

definition example_world :: world where
  "example_world =
     \<lparr>requests_get = (\<lambda>n url. Inr example_page),
      read_csv_range = (\<lambda>n url. Inr example_rows),
      read_csv_snapshot = (\<lambda>n url. Inl (HTTPError 404 ''Not Found''))\<rparr>"

text \<open>A server whose table downloads all raise the given exception.\<close>

definition failing_world :: "exn \<Rightarrow> world" where
  "failing_world e =
     \<lparr>requests_get = (\<lambda>n url. Inr example_page),
      read_csv_range = (\<lambda>n url. Inl e),
      read_csv_snapshot = (\<lambda>n url. Inl e)\<rparr>"

text \<open>A server whose catalog is empty at the very first request and complete afterwards.\<close>

definition changing_world :: world where
  "changing_world =
     \<lparr>requests_get = (\<lambda>n url. if n = 0 then Inr [] else Inr example_page),
      read_csv_range = (\<lambda>n url. Inr example_rows),
      read_csv_snapshot = (\<lambda>n url. Inr [])\<rparr>"

section \<open>Results\<close>

subsection \<open>Construction of the range query\<close>

text \<open>
  C3. For every pair of dates with the final date at or before the initial date, constructing
  the range query fails with the assertion error of the range check and no request has been
  made; for every pair with the final date strictly after the initial date, construction
  succeeds, again without a request, and stores the code and both dates as day/month/year text.
\<close>

theorem init_range_check:
  "(final \<le> initial \<longrightarrow>
      SearchCurrencyPrice_init code initial final tr =
        (Inl (AssertionError ''Final date is earlier than initial date''), tr)) \<and>
   (initial < final \<longrightarrow>
      SearchCurrencyPrice_init code initial final tr =
        (Inr \<lparr>currency_code = code,
              initial_date = strftime_dmY_slash initial,
              final_date = strftime_dmY_slash final\<rparr>, tr))"
  by (auto simp: SearchCurrencyPrice_init_def)

theorem init_range_check_witness:
  "((2021, 1, 1) \<le> ((2021, 1, 1) :: date) \<and>
      SearchCurrencyPrice_init 220 (2021, 1, 1) (2021, 1, 1) [] =
        (Inl (AssertionError ''Final date is earlier than initial date''), [])) \<and>
   (((2021, 1, 31) :: date) < (2021, 2, 1) \<and>
      SearchCurrencyPrice_init 220 (2021, 1, 31) (2021, 2, 1) [] =
        (Inr \<lparr>currency_code = 220, initial_date = ''31/01/2021'',
              final_date = ''01/02/2021''\<rparr>, []))"
proof -
  have a: "(2021, 1, 1) \<le> ((2021, 1, 1) :: date)" by simp
  have b: "((2021, 1, 31) :: date) < (2021, 2, 1)" by simp
  have f1: "strftime_dmY_slash (2021, 1, 31) = ''31/01/2021''" by code_simp
  have f2: "strftime_dmY_slash (2021, 2, 1) = ''01/02/2021''" by code_simp
  from init_range_check [of "(2021, 1, 1)" "(2021, 1, 1)" 220 "[]"] a
  have c1: "SearchCurrencyPrice_init 220 (2021, 1, 1) (2021, 1, 1) [] =
        (Inl (AssertionError ''Final date is earlier than initial date''), [])" by blast
  from init_range_check [of "(2021, 2, 1)" "(2021, 1, 31)" 220 "[]"] b
  have c2: "SearchCurrencyPrice_init 220 (2021, 1, 31) (2021, 2, 1) [] =
        (Inr \<lparr>currency_code = 220, initial_date = strftime_dmY_slash (2021, 1, 31),
              final_date = strftime_dmY_slash (2021, 2, 1)\<rparr>, [])" by blast
  show ?thesis using a b c1 c2 unfolding f1 f2 by blast
qed

subsection \<open>The catalog\<close>

lemma find_in_filter: "find_in wanted n = filter (is_named wanted) (subtree n)"
proof (induction n)
  case (NavigableString s)
  show ?case by simp
next
  case (Tag name attrs contents)
  have "concat (map (find_in wanted) contents) =
        concat (map (\<lambda>c. filter (is_named wanted) (subtree c)) contents)"
    using Tag.IH by (induction contents) simp_all
  then show ?case by (simp add: filter_concat comp_def)
qed

lemma find_all_filter: "find_all soup wanted = filter (is_named wanted) (document_order soup)"
proof -
  have "find_in wanted = (\<lambda>n. filter (is_named wanted) (subtree n))"
    by (rule ext) (rule find_in_filter)
  then show ?thesis
    by (simp add: find_all_def document_order_def filter_concat comp_def)
qed

text \<open>
  C8. When the page is fetched, the catalog operation returns, after that one request, the
  list obtained from the nodes of the page in document order by keeping the option elements
  and turning each into the record of its text and its value attribute: one record per
  option element, in the order of the page, nothing merged and nothing reordered. A page
  with exactly two option elements therefore gives exactly their two records, in their order.
\<close>

theorem catalog_records:
  assumes "requests_get w (length tr) catalog_url = Inr page"
  shows "get_available_currencies w tr =
           (Inr (map (\<lambda>option. \<lparr>Currency = get_text option, Code = get option ''value''\<rparr>)
                   (filter (is_named ''option'') (document_order page))),
            tr @ [catalog_url])"
  using assms
  by (simp add: get_available_currencies_def SearchAvailableCurrencies_fetch_data_def
      SearchAvailableCurrencies_clean_data_def find_all_filter comp_def)

theorem catalog_records_witness:
  "requests_get example_world (length ([] :: trace)) catalog_url = Inr example_page \<and>
   filter (is_named ''option'') (document_order example_page) =
     [Tag ''option'' [(''value'', ''220'')] [NavigableString ''DOLAR DOS EUA''],
      Tag ''option'' [(''value'', ''978'')] [NavigableString ''EURO'']] \<and>
   get_available_currencies example_world [] =
     (Inr [\<lparr>Currency = ''DOLAR DOS EUA'', Code = Some ''220''\<rparr>,
           \<lparr>Currency = ''EURO'', Code = Some ''978''\<rparr>], [catalog_url])"
proof -
  have h: "requests_get example_world (length ([] :: trace)) catalog_url = Inr example_page"
    by (simp add: example_world_def)
  have opts: "filter (is_named ''option'') (document_order example_page) =
     [Tag ''option'' [(''value'', ''220'')] [NavigableString ''DOLAR DOS EUA''],
      Tag ''option'' [(''value'', ''978'')] [NavigableString ''EURO'']]"
    by code_simp
  show ?thesis using h catalog_records [OF h] unfolding opts by simp
qed

lemma catalog_keeps_duplicates:
  "SearchAvailableCurrencies_clean_data
     [Tag ''option'' [(''value'', ''220'')] [NavigableString ''DOLAR DOS EUA''],
      Tag ''option'' [(''value'', ''220'')] [NavigableString ''DOLAR DOS EUA'']] =
   [\<lparr>Currency = ''DOLAR DOS EUA'', Code = Some ''220''\<rparr>,
    \<lparr>Currency = ''DOLAR DOS EUA'', Code = Some ''220''\<rparr>]"
  by code_simp

subsection \<open>The range query: unknown codes and unreadable answers\<close>

text \<open>
  C4. If the text of the currency code is not among the codes of the catalog page fetched by
  this very invocation, the range query fails with the assertion error of the code check and
  the catalog request is the only request it has made. Whatever the earlier requests were,
  every invocation first requests the catalog again.
\<close>

theorem get_data_unknown_code:
  "(requests_get w (length tr) catalog_url = Inr page \<and>
    Some (str_int (currency_code self)) \<notin> set (map Code (SearchAvailableCurrencies_clean_data page))
    \<longrightarrow> get_data w self tr =
          (Inl (AssertionError ''Currency code does not exist''), tr @ [catalog_url])) \<and>
   prefix (tr @ [catalog_url]) (snd (get_data w self tr))"
proof
  show "requests_get w (length tr) catalog_url = Inr page \<and>
    Some (str_int (currency_code self)) \<notin> set (map Code (SearchAvailableCurrencies_clean_data page))
    \<longrightarrow> get_data w self tr =
          (Inl (AssertionError ''Currency code does not exist''), tr @ [catalog_url])"
  proof
    assume a: "requests_get w (length tr) catalog_url = Inr page \<and>
      Some (str_int (currency_code self)) \<notin> set (map Code (SearchAvailableCurrencies_clean_data page))"
    then have "filter (\<lambda>r. Code r = Some (str_int (currency_code self)))
            (SearchAvailableCurrencies_clean_data page) = []"
      by (force simp: filter_empty_conv)
    then show "get_data w self tr =
          (Inl (AssertionError ''Currency code does not exist''), tr @ [catalog_url])"
      using a
      by (simp add: get_data_def check_if_code_exists_def get_available_currencies_def
          SearchAvailableCurrencies_fetch_data_def)
  qed
next
  show "prefix (tr @ [catalog_url]) (snd (get_data w self tr))"
    by (auto simp: get_data_def check_if_code_exists_def get_available_currencies_def
        SearchAvailableCurrencies_fetch_data_def SearchCurrencyPrice_fetch_data_def Let_def
        split: sum.splits prod.splits)
qed

theorem get_data_unknown_code_witness:
  "(requests_get changing_world (length ([] :: trace)) catalog_url = Inr [] \<and>
    Some (str_int (currency_code
        \<lparr>currency_code = 220, initial_date = ''01/01/2021'', final_date = ''05/01/2021''\<rparr>))
      \<notin> set (map Code (SearchAvailableCurrencies_clean_data []))) \<and>
   get_data changing_world
      \<lparr>currency_code = 220, initial_date = ''01/01/2021'', final_date = ''05/01/2021''\<rparr> [] =
     (Inl (AssertionError ''Currency code does not exist''), [catalog_url]) \<and>
   snd (get_data changing_world
      \<lparr>currency_code = 220, initial_date = ''01/01/2021'', final_date = ''05/01/2021''\<rparr>
      [catalog_url]) =
     [catalog_url, catalog_url,
      range_url \<lparr>currency_code = 220, initial_date = ''01/01/2021'', final_date = ''05/01/2021''\<rparr>]"
proof -
  let ?q = "\<lparr>currency_code = 220, initial_date = ''01/01/2021'', final_date = ''05/01/2021''\<rparr>"
  have h: "requests_get changing_world (length ([] :: trace)) catalog_url = Inr [] \<and>
    Some (str_int (currency_code ?q)) \<notin> set (map Code (SearchAvailableCurrencies_clean_data []))"
    by (simp add: changing_world_def SearchAvailableCurrencies_clean_data_def find_all_def)
  have first: "get_data changing_world ?q [] =
     (Inl (AssertionError ''Currency code does not exist''), [catalog_url])"
    using get_data_unknown_code [of changing_world "[]" "[]" ?q] h by simp
  have second: "snd (get_data changing_world ?q [catalog_url]) =
     [catalog_url, catalog_url, range_url ?q]"
    by code_simp
  show ?thesis using h first second by blast
qed

text \<open>
  C9. If reading the answer of the range request fails with a parser error, the fetch step
  fails with an exception whose message tells the caller to check whether the currency is
  available and names the address of the page where this is looked up. (That address is the
  one written in the message; the catalog operation itself requests another one.)
\<close>

theorem fetch_parse_failure:
  assumes "read_csv_range w (length tr) (range_url self) = Inl (ParserError m)"
  shows "SearchCurrencyPrice_fetch_data w self tr =
           (Inl (Exception (''An error occurred when parsing data. Check if currency is available at ''
                            @ ''https://www.bcb.gov.br/estabilidadefinanceira/historicocotacoes'')),
            tr @ [range_url self]) \<and>
         sublist ''https://www.bcb.gov.br/estabilidadefinanceira/historicocotacoes''
           parse_failure_message"
proof -
  have "sublist availability_url parse_failure_message"
    unfolding parse_failure_message_def by (rule sublist_append_leftI)
  then show ?thesis using assms
    by (simp add: SearchCurrencyPrice_fetch_data_def parse_failure_message_def availability_url_def)
qed

theorem fetch_parse_failure_witness:
  "read_csv_range (failing_world (ParserError ''Error tokenizing data'')) (length [catalog_url])
     (range_url \<lparr>currency_code = 220, initial_date = ''01/01/2021'', final_date = ''05/01/2021''\<rparr>)
     = Inl (ParserError ''Error tokenizing data'') \<and>
   SearchCurrencyPrice_fetch_data (failing_world (ParserError ''Error tokenizing data''))
     \<lparr>currency_code = 220, initial_date = ''01/01/2021'', final_date = ''05/01/2021''\<rparr>
     [catalog_url] =
     (Inl (Exception (''An error occurred when parsing data. Check if currency is available at ''
                      @ ''https://www.bcb.gov.br/estabilidadefinanceira/historicocotacoes'')),
      [catalog_url] @
      [range_url \<lparr>currency_code = 220, initial_date = ''01/01/2021'', final_date = ''05/01/2021''\<rparr>])"
proof -
  let ?w = "failing_world (ParserError ''Error tokenizing data'')"
  let ?q = "\<lparr>currency_code = 220, initial_date = ''01/01/2021'', final_date = ''05/01/2021''\<rparr>"
  have h: "read_csv_range ?w (length [catalog_url]) (range_url ?q)
     = Inl (ParserError ''Error tokenizing data'')"
    by (simp add: failing_world_def)
  show ?thesis using h fetch_parse_failure [OF h] by blast
qed

subsection \<open>The snapshot: missing files\<close>

text \<open>
  C5, as the code has it. The fetch step of the snapshot decides by the text of the exception:
  if it contains \<open>HTTP Error 404: Not Found\<close>, the step returns the empty table with the
  eight declared columns; if it does not, the same exception reaches the caller. The HTTP
  error of status 404 with the reason phrase \<open>Not Found\<close> has exactly that text.
\<close>

theorem snapshot_fetch_by_message:
  "(read_csv_snapshot w (length tr) (snapshot_url self) = Inl exc \<and>
      sublist ''HTTP Error 404: Not Found'' (str_exn exc) \<longrightarrow>
    SearchAllCurrenciesPrices_fetch_data w self tr =
      (Inr \<lparr>index_name = None, columns = snapshot_columns, rows = []\<rparr>,
       tr @ [snapshot_url self])) \<and>
   (read_csv_snapshot w (length tr) (snapshot_url self) = Inl exc \<and>
      \<not> sublist ''HTTP Error 404: Not Found'' (str_exn exc) \<longrightarrow>
    SearchAllCurrenciesPrices_fetch_data w self tr = (Inl exc, tr @ [snapshot_url self])) \<and>
   str_exn (HTTPError 404 ''Not Found'') = ''HTTP Error 404: Not Found'' \<and>
   length snapshot_columns = 8"
proof -
  have s: "str_nat 404 = ''404''" by code_simp
  show ?thesis
    by (simp add: SearchAllCurrenciesPrices_fetch_data_def s snapshot_columns_def)
qed

theorem snapshot_fetch_by_message_witness:
  "(read_csv_snapshot (failing_world (HTTPError 404 ''Not Found'')) (length ([] :: trace))
        (snapshot_url \<lparr>reference_date = ''20210101''\<rparr>) = Inl (HTTPError 404 ''Not Found'') \<and>
      sublist ''HTTP Error 404: Not Found'' (str_exn (HTTPError 404 ''Not Found'')) \<and>
    SearchAllCurrenciesPrices_fetch_data (failing_world (HTTPError 404 ''Not Found''))
        \<lparr>reference_date = ''20210101''\<rparr> [] =
      (Inr \<lparr>index_name = None, columns = snapshot_columns, rows = []\<rparr>,
       [] @ [snapshot_url \<lparr>reference_date = ''20210101''\<rparr>])) \<and>
   (read_csv_snapshot (failing_world (URLError ''timed out'')) (length ([] :: trace))
        (snapshot_url \<lparr>reference_date = ''20210101''\<rparr>) = Inl (URLError ''timed out'') \<and>
      \<not> sublist ''HTTP Error 404: Not Found'' (str_exn (URLError ''timed out'')) \<and>
    SearchAllCurrenciesPrices_fetch_data (failing_world (URLError ''timed out''))
        \<lparr>reference_date = ''20210101''\<rparr> [] =
      (Inl (URLError ''timed out''), [] @ [snapshot_url \<lparr>reference_date = ''20210101''\<rparr>]))"
proof -
  let ?q = "\<lparr>reference_date = ''20210101''\<rparr>"
  have h1: "read_csv_snapshot (failing_world (HTTPError 404 ''Not Found'')) (length ([] :: trace))
        (snapshot_url ?q) = Inl (HTTPError 404 ''Not Found'')"
    by (simp add: failing_world_def)
  have h2: "sublist ''HTTP Error 404: Not Found'' (str_exn (HTTPError 404 ''Not Found''))"
    by code_simp
  have h3: "read_csv_snapshot (failing_world (URLError ''timed out'')) (length ([] :: trace))
        (snapshot_url ?q) = Inl (URLError ''timed out'')"
    by (simp add: failing_world_def)
  have h4: "\<not> sublist ''HTTP Error 404: Not Found'' (str_exn (URLError ''timed out''))"
    by code_simp
  from snapshot_fetch_by_message
         [of "failing_world (HTTPError 404 ''Not Found'')" "[]" ?q "HTTPError 404 ''Not Found''"]
       h1 h2
  have c1: "SearchAllCurrenciesPrices_fetch_data (failing_world (HTTPError 404 ''Not Found'')) ?q [] =
      (Inr \<lparr>index_name = None, columns = snapshot_columns, rows = []\<rparr>, [] @ [snapshot_url ?q])"
    by blast
  from snapshot_fetch_by_message
         [of "failing_world (URLError ''timed out'')" "[]" ?q "URLError ''timed out''"] h3 h4
  have c2: "SearchAllCurrenciesPrices_fetch_data (failing_world (URLError ''timed out'')) ?q [] =
      (Inl (URLError ''timed out''), [] @ [snapshot_url ?q])"
    by blast
  show ?thesis using h1 h2 h3 h4 c1 c2 by blast
qed

text \<open>
  A not-found answer whose reason phrase is written in capitals is not recognised: the
  fetch step raises the HTTP error instead of returning the empty table.
\<close>

theorem snapshot_not_found_other_phrase:
  "SearchAllCurrenciesPrices_fetch_data (failing_world (HTTPError 404 ''NOT FOUND''))
     \<lparr>reference_date = ''20210101''\<rparr> [] =
   (Inl (HTTPError 404 ''NOT FOUND''), [snapshot_url \<lparr>reference_date = ''20210101''\<rparr>])"
  by code_simp

subsection \<open>The snapshot: construction\<close>

lemma snapshot_init_datetime:
  "SearchAllCurrenciesPrices_init defined_at (Some (PyDateTime dt)) now tr =
     (if dt \<le> now then (Inr \<lparr>reference_date = strftime_Ymd (fst dt)\<rparr>, tr)
      else (Inl (AssertionError ''Final date is should be earlier than today''), tr))"
  by (simp add: SearchAllCurrenciesPrices_init_def le_datetime_def)

lemma snapshot_init_default:
  "defined_at \<le> now \<Longrightarrow>
   SearchAllCurrenciesPrices_init defined_at None now tr =
     (Inr \<lparr>reference_date = strftime_Ymd (fst defined_at)\<rparr>, tr)"
  by (simp add: SearchAllCurrenciesPrices_init_def le_datetime_def)

lemma snapshot_init_plain_date:
  "SearchAllCurrenciesPrices_init defined_at (Some (PyDate d)) now tr =
     (Inl (TypeError (''can'' @ [CHR 0x27] @ ''t compare datetime.datetime to datetime.date'')), tr)"
  by (simp add: SearchAllCurrenciesPrices_init_def le_datetime_def)

text \<open>
  C7, at two inputs. With the argument omitted, a query built two minutes after a class
  body that ran at 23:59 on 1 January 2021 carries the date of the class body, 20210101,
  while the current date is 2 January. With a plain date of the past as the argument,
  construction raises a type error instead of succeeding.
\<close>

theorem snapshot_init_default_is_stale:
  "SearchAllCurrenciesPrices_init ((2021, 1, 1), (23, 59, 0, 0)) None
      ((2021, 1, 2), (0, 1, 0, 0)) [] =
     (Inr \<lparr>reference_date = ''20210101''\<rparr>, []) \<and>
   strftime_Ymd (fst (((2021, 1, 2), (0, 1, 0, 0)) :: datetime)) = ''20210102'' \<and>
   SearchAllCurrenciesPrices_init ((2021, 1, 1), (23, 59, 0, 0)) (Some (PyDate (2021, 1, 1)))
      ((2021, 1, 2), (0, 1, 0, 0)) [] =
     (Inl (TypeError (''can'' @ [CHR 0x27] @ ''t compare datetime.datetime to datetime.date'')), [])"
  by code_simp

subsection \<open>Numbers\<close>

lemma is_digit_not_special:
  assumes "is_digit c"
  shows "\<not> is_space c" "c \<noteq> CHR ''-''" "c \<noteq> CHR ''+''" "c \<noteq> CHR ''.''" "c \<noteq> CHR '',''"
  using assms by (auto simp: is_digit_def is_space_def)

lemma strip_digits_ends:
  assumes "s \<noteq> []" "is_digit (hd s)" "is_digit (last s)"
  shows "strip s = s"
proof -
  have 1: "dropWhile is_space s = s"
    using assms by (cases s) (auto simp: is_digit_not_special)
  have 2: "dropWhile is_space (rev s) = rev s"
    using assms by (cases "rev s") (auto simp: is_digit_not_special hd_rev)
  show ?thesis by (simp add: strip_def 1 2)
qed

text \<open>
  Digits, a comma, digits: after the comma is replaced, the text parses to the number with
  that integer part and those decimals.
\<close>

lemma comma_decimal_value:
  assumes a: "a \<noteq> []" "list_all is_digit a" and b: "b \<noteq> []" "list_all is_digit b"
  shows "numeric_of_str (str_replace_comma (a @ '','' @ b)) =
           Some (Finite (of_nat (digits_val (a @ b)) / 10 ^ length b))"
proof -
  have ra: "str_replace_comma a = a" using a(2)
    by (induction a) (auto simp: str_replace_comma_def is_digit_not_special)
  have rb: "str_replace_comma b = b" using b(2)
    by (induction b) (auto simp: str_replace_comma_def is_digit_not_special)
  have r: "str_replace_comma (a @ '','' @ b) = a @ CHR ''.'' # b"
    using ra rb by (simp add: str_replace_comma_def)
  let ?s = "a @ CHR ''.'' # b"
  obtain x a' where ax: "a = x # a'" using a(1) by (cases a) auto
  have dx: "is_digit x" using a(2) ax by simp
  have "is_digit (last b)" using b by (simp add: list_all_iff)
  then have st: "strip ?s = ?s"
    using ax dx b(1) by (intro strip_digits_ends) auto
  have ps: "parse_sign ?s = (False, ?s)"
    using ax dx by (simp add: parse_sign_def is_digit_not_special)
  have tw: "takeWhile is_digit ?s = a" "dropWhile is_digit ?s = CHR ''.'' # b"
    using a(2) by (simp_all add: takeWhile_append2 dropWhile_append2 list_all_iff is_digit_def)
  have twb: "takeWhile is_digit b = b" "dropWhile is_digit b = []"
    using b(2) by (simp_all add: list_all_iff)
  have td: "to_double ?s = Some (of_nat (digits_val (a @ b)) / 10 ^ length b)"
    using a(1) b(1)
    by (simp add: to_double_def st ps tw twb parse_exponent_def scale10_def)
  have ne: "?s \<noteq> []" by simp
  show ?thesis unfolding r numeric_of_str_def using td ne by simp
qed

lemma snapshot_cleaning_of_cells:
  "rows (SearchAllCurrenciesPrices_clean_data
     \<lparr>index_name = None, columns = snapshot_columns,
      rows = [\<lparr>Reference_Date = ''04/01/2021'', Codigo = ''220'', Tipo_snapshot = ''A'',
               Moeda_snapshot = ''USD'', Cotacoes_em_Real_Compra = ''N/D'',
               Cotacoes_em_Real_Venda = ''5,2345'', Paridade_Compra = ''1,0000'',
               Paridade_Venda = ''N/D''\<rparr>]\<rparr>) =
   [\<lparr>Reference_Date = Timestamp (2021, 1, 4), Codigo = ''220'', Tipo_snapshot = ''A'',
     Moeda_snapshot = ''USD'', Cotacoes_em_Real_Compra = NaN,
     Cotacoes_em_Real_Venda = Finite (52345 / 10000), Paridade_Compra = Finite 1,
     Paridade_Venda = NaN\<rparr>]"
  by code_simp

lemma range_cleaning_of_numeric_cells:
  "SearchCurrencyPrice_clean_data
     [\<lparr>Date = KInt 1012021, Tipo = ''A'', Moeda = ''USD'', Compra = ''5,2345'', Venda = ''5,2351''\<rparr>] =
   Inr [\<lparr>Date = Timestamp (2021, 1, 1), Tipo = ''A'', Moeda = ''USD'',
         Compra = Finite (52345 / 10000), Venda = Finite (52351 / 10000)\<rparr>]"
  by code_simp

text \<open>
  C2, at the input where the range query departs from it. A table with the cell \<open>N/D\<close> in
  its Compra column makes the cleaning step of the range query raise a value error; it
  returns no table and no missing-value marker.
\<close>

theorem range_cleaning_raises_on_text:
  "SearchCurrencyPrice_clean_data
     [\<lparr>Date = KInt 1012021, Tipo = ''A'', Moeda = ''USD'', Compra = ''N/D'', Venda = ''5,2345''\<rparr>] =
   Inl (ValueError (''Unable to parse string '' @ [CHR 0x22] @ ''N/D'' @ [CHR 0x22] @
                    '' at position 0''))"
  by code_simp

subsection \<open>The range query: order of the result\<close>

lemma sorted_no_nat:
  "NaT \<notin> set ts \<Longrightarrow> sorted_wrt nat_last_le ts = sorted (map stamp_key ts)"
proof (induction ts)
  case Nil
  show ?case by simp
next
  case (Cons t ts)
  then obtain d where t: "t = Timestamp d" by (cases t) auto
  have "(\<forall>y\<in>set ts. nat_last_le (Timestamp d) y) = (\<forall>y\<in>set ts. d \<le> stamp_key y)"
  proof (rule ball_cong[OF refl])
    fix y assume "y \<in> set ts"
    with Cons.prems obtain e where "y = Timestamp e" by (cases y) auto
    then show "nat_last_le (Timestamp d) y = (d \<le> stamp_key y)" by (simp add: stamp_key_def)
  qed
  with Cons t show ?case by (simp add: stamp_key_def)
qed

lemma sorted_all_nat: "\<forall>y\<in>set ts. y = NaT \<Longrightarrow> sorted_wrt nat_last_le ts"
  by (induction ts) auto

lemma sort_index_sorted: "sorted_wrt nat_last_le (map Date (sort_index df))"
proof (cases "is_monotonic_increasing (map Date df)")
  case True
  then show ?thesis
    by (simp add: sort_index_def is_monotonic_increasing_def sorted_no_nat)
next
  case False
  let ?k = "\<lambda>r. stamp_key (Date r)"
  let ?xs = "sort_key ?k (filter (\<lambda>r. Date r \<noteq> NaT) df)"
  let ?ys = "filter (\<lambda>r. Date r = NaT) df"
  have nx: "NaT \<notin> set (map Date ?xs)" by auto
  have "sorted (map stamp_key (map Date ?xs))"
    using sorted_sort_key [of ?k "filter (\<lambda>r. Date r \<noteq> NaT) df"] by (simp add: comp_def)
  then have sx: "sorted_wrt nat_last_le (map Date ?xs)"
    using sorted_no_nat [OF nx] by simp
  have ay: "\<forall>y\<in>set (map Date ?ys). y = NaT" by auto
  then have sy: "sorted_wrt nat_last_le (map Date ?ys)"
    by (rule sorted_all_nat)
  have cross: "\<forall>x\<in>set (map Date ?xs). \<forall>y\<in>set (map Date ?ys). nat_last_le x y"
    using ay by auto
  have "sorted_wrt nat_last_le (map Date ?xs @ map Date ?ys)"
    using sx sy cross by (simp only: sorted_wrt_append)
  with False show ?thesis by (simp add: sort_index_def)
qed

lemma sort_index_mset: "mset (sort_index df) = mset df"
  by (simp add: sort_index_def)

lemma nat_last_shape:
  "sorted_wrt nat_last_le ts \<Longrightarrow>
   \<exists>ds k. ts = map Timestamp ds @ replicate k NaT \<and> sorted ds"
proof (induction ts)
  case Nil
  show ?case by simp
next
  case (Cons t ts)
  then obtain ds k where ts: "ts = map Timestamp ds @ replicate k NaT" and sd: "sorted ds"
    by auto
  from Cons.prems have later: "\<forall>y\<in>set ts. nat_last_le t y" by simp
  show ?case
  proof (cases t)
    case (Timestamp d)
    have "\<forall>e\<in>set ds. d \<le> e"
    proof
      fix e assume "e \<in> set ds"
      then have "Timestamp e \<in> set ts" using ts by simp
      then have "nat_last_le t (Timestamp e)" using later by blast
      then show "d \<le> e" using Timestamp by simp
    qed
    then have "sorted (d # ds)" using sd by simp
    moreover have "t # ts = map Timestamp (d # ds) @ replicate k NaT"
      using ts Timestamp by simp
    ultimately show ?thesis by blast
  next
    case NaT
    have "ds = []"
    proof (cases ds)
      case (Cons e es)
      then have "nat_last_le NaT (Timestamp e)" using later ts NaT by auto
      then show ?thesis by simp
    qed simp
    then have "t # ts = map Timestamp [] @ replicate (Suc k) NaT" using ts NaT by simp
    then show ?thesis by (intro exI[of _ "[]"] exI[of _ "Suc k"]) simp
  qed
qed

lemma clean_data_sorted:
  "SearchCurrencyPrice_clean_data raw = Inr df \<Longrightarrow> sorted_wrt nat_last_le (map Date df)"
  by (auto simp: SearchCurrencyPrice_clean_data_def Let_def sort_index_sorted split: sum.splits)

text \<open>
  C1. Whatever the servers answer and whatever the query was built with, a table returned by
  the range query is in ascending order of its date index with the rows without a date
  after all others: the index is a sorted list of dates followed by \<open>NaT\<close> only.
\<close>

theorem get_data_sorted:
  assumes "get_data w self tr = (Inr df, tr')"
  shows "sorted_wrt nat_last_le (map Date df) \<and>
         (\<exists>ds k. map Date df = map Timestamp ds @ replicate k NaT \<and> sorted ds)"
proof -
  from assms obtain raw where "SearchCurrencyPrice_clean_data raw = Inr df"
    by (auto simp: get_data_def split: prod.splits sum.splits if_splits)
  then have "sorted_wrt nat_last_le (map Date df)" by (rule clean_data_sorted)
  then show ?thesis using nat_last_shape by blast
qed

theorem get_data_sorted_witness:
  "get_data example_world
      \<lparr>currency_code = 220, initial_date = ''01/01/2021'', final_date = ''05/01/2021''\<rparr> [] =
     (Inr [\<lparr>Date = Timestamp (2021, 1, 1), Tipo = ''A'', Moeda = ''USD'',
            Compra = Finite (51967 / 10000), Venda = Finite (51973 / 10000)\<rparr>,
           \<lparr>Date = Timestamp (2021, 1, 4), Tipo = ''A'', Moeda = ''USD'',
            Compra = Finite (51620 / 10000), Venda = Finite (51626 / 10000)\<rparr>,
           \<lparr>Date = NaT, Tipo = ''A'', Moeda = ''USD'',
            Compra = Finite (52000 / 10000), Venda = Finite (52006 / 10000)\<rparr>],
      [catalog_url,
       range_url \<lparr>currency_code = 220, initial_date = ''01/01/2021'', final_date = ''05/01/2021''\<rparr>]) \<and>
   sorted_wrt nat_last_le [Timestamp (2021, 1, 1), Timestamp (2021, 1, 4), NaT]"
proof -
  let ?q = "\<lparr>currency_code = 220, initial_date = ''01/01/2021'', final_date = ''05/01/2021''\<rparr>"
  have run: "get_data example_world ?q [] =
     (Inr [\<lparr>Date = Timestamp (2021, 1, 1), Tipo = ''A'', Moeda = ''USD'',
            Compra = Finite (51967 / 10000), Venda = Finite (51973 / 10000)\<rparr>,
           \<lparr>Date = Timestamp (2021, 1, 4), Tipo = ''A'', Moeda = ''USD'',
            Compra = Finite (51620 / 10000), Venda = Finite (51626 / 10000)\<rparr>,
           \<lparr>Date = NaT, Tipo = ''A'', Moeda = ''USD'',
            Compra = Finite (52000 / 10000), Venda = Finite (52006 / 10000)\<rparr>],
      [catalog_url, range_url ?q])"
    by code_simp
  from get_data_sorted [OF run]
  have "sorted_wrt nat_last_le [Timestamp (2021, 1, 1), Timestamp (2021, 1, 4), NaT]"
    by simp
  with run show ?thesis by blast
qed

subsection \<open>Row keys: digits and padding\<close>

lemma below_ten:
  fixes k :: nat
  assumes "k < 10"
  shows "k = 0 \<or> k = 1 \<or> k = 2 \<or> k = 3 \<or> k = 4 \<or>
         k = 5 \<or> k = 6 \<or> k = 7 \<or> k = 8 \<or> k = 9"
  using assms by arith

lemma digit_char_mod: "digit_char (n mod 10) = digit_char n"
  by (simp add: digit_char_def)

lemma digit_char_props:
  "is_digit (digit_char n)" "digit_val (digit_char n) = n mod 10"
proof -
  have "n mod 10 < 10" by simp
  from below_ten [OF this] show "is_digit (digit_char n)" "digit_val (digit_char n) = n mod 10"
    by (auto simp: digit_char_def is_digit_def digit_val_def)
qed


lemma str_nat_digits: "str_nat n \<noteq> [] \<and> list_all is_digit (str_nat n)"
proof (induction n rule: str_nat.induct)
  case (1 n)
  show ?case
  proof (cases "n < 10")
    case True
    then show ?thesis by (simp add: str_nat.simps [of n] digit_char_props)
  next
    case False
    then show ?thesis using 1 by (simp add: str_nat.simps [of n] digit_char_props)
  qed
qed

lemma zfill_digits:
  assumes "s \<noteq> []" "list_all is_digit s"
  shows "zfill k s = replicate (k - length s) CHR ''0'' @ s"
proof -
  obtain c r where s: "s = c # r" using assms(1) by (cases s) auto
  then have "is_digit c" using assms(2) by simp
  then have "c \<noteq> CHR ''+''" "c \<noteq> CHR ''-''" by (auto simp: is_digit_def)
  then show ?thesis using s by (simp add: zfill_def)
qed

lemma zfill_str_nat: "zfill k (str_nat n) = replicate (k - length (str_nat n)) CHR ''0'' @ str_nat n"
  using str_nat_digits [of n] by (simp add: zfill_digits)

lemma zfill_step:
  assumes "1 \<le> k"
  shows "zfill (Suc k) (str_nat n) = zfill k (str_nat (n div 10)) @ [digit_char n]"
proof (cases "n < 10")
  case True
  then have s: "str_nat n = [digit_char n]" "str_nat (n div 10) = ''0''"
    by (simp_all add: str_nat.simps [of n] str_nat.simps [of 0] digit_char_def)
  have r: "replicate k CHR ''0'' = replicate (k - 1) CHR ''0'' @ ''0''"
    using assms by (cases k) (simp_all add: replicate_append_same)
  have "zfill (Suc k) (str_nat n) = replicate (Suc k - length (str_nat n)) CHR ''0'' @ str_nat n"
    by (rule zfill_str_nat)
  also have "\<dots> = replicate k CHR ''0'' @ [digit_char n]" by (simp add: s)
  also have "\<dots> = (replicate (k - length (str_nat (n div 10))) CHR ''0'' @ str_nat (n div 10))
                    @ [digit_char n]"
    using r by (simp add: s)
  also have "\<dots> = zfill k (str_nat (n div 10)) @ [digit_char n]"
    by (simp only: zfill_str_nat [of k "n div 10"])
  finally show ?thesis .
next
  case False
  then have s: "str_nat n = str_nat (n div 10) @ [digit_char n]"
    by (simp add: str_nat.simps [of n] digit_char_mod)
  have "zfill (Suc k) (str_nat n) = replicate (Suc k - length (str_nat n)) CHR ''0'' @ str_nat n"
    by (rule zfill_str_nat)
  also have "\<dots> = (replicate (k - length (str_nat (n div 10))) CHR ''0'' @ str_nat (n div 10))
                    @ [digit_char n]"
    by (simp add: s)
  also have "\<dots> = zfill k (str_nat (n div 10)) @ [digit_char n]"
    by (simp only: zfill_str_nat [of k "n div 10"])
  finally show ?thesis .
qed

lemma zfill_one:
  assumes "n < 10"
  shows "zfill (Suc 0) (str_nat n) = [digit_char n]"
proof -
  have "zfill (Suc 0) (str_nat n) = replicate (Suc 0 - length (str_nat n)) CHR ''0'' @ str_nat n"
    by (rule zfill_str_nat)
  also have "\<dots> = [digit_char n]" using assms by (simp add: str_nat.simps [of n])
  finally show ?thesis .
qed

lemma two_digits:
  assumes "n < 100"
  shows "zfill 2 (str_nat n) = [digit_char (n div 10), digit_char n]"
proof -
  have "n div 10 < 10" using assms by arith
  then have "zfill (Suc 0) (str_nat (n div 10)) = [digit_char (n div 10)]" by (rule zfill_one)
  moreover have "zfill (Suc (Suc 0)) (str_nat n) = zfill (Suc 0) (str_nat (n div 10)) @ [digit_char n]"
    by (rule zfill_step) simp
  ultimately show ?thesis unfolding numeral_2_eq_2 by simp
qed

lemma four_digits:
  assumes "n < 10000"
  shows "zfill 4 (str_nat n) =
     [digit_char (n div 1000), digit_char (n div 100), digit_char (n div 10), digit_char n]"
proof -
  have d: "n div 10 div 10 = n div 100" "n div 100 div 10 = n div 1000" "n div 100 < 100"
    using assms by arith+
  have "zfill (Suc 3) (str_nat n) = zfill 3 (str_nat (n div 10)) @ [digit_char n]"
    by (rule zfill_step) simp
  moreover have "zfill (Suc 2) (str_nat (n div 10)) =
      zfill 2 (str_nat (n div 10 div 10)) @ [digit_char (n div 10)]"
    by (rule zfill_step) simp
  moreover have "zfill 2 (str_nat (n div 100)) = [digit_char (n div 100 div 10), digit_char (n div 100)]"
    using d(3) by (rule two_digits)
  moreover have "Suc 3 = 4" "Suc 2 = 3" by simp_all
  ultimately show ?thesis by (simp add: d)
qed

lemma eight_digits:
  assumes "n < 100000000"
  shows "zfill 8 (str_nat n) =
     [digit_char (n div 10000000), digit_char (n div 1000000), digit_char (n div 100000),
      digit_char (n div 10000), digit_char (n div 1000), digit_char (n div 100),
      digit_char (n div 10), digit_char n]"
proof -
  have d: "n div 10 div 10 = n div 100" "n div 100 div 10 = n div 1000"
    "n div 1000 div 10 = n div 10000" "n div 10000 div 1000 = n div 10000000"
    "n div 10000 div 100 = n div 1000000" "n div 10000 div 10 = n div 100000"
    "n div 10000 < 10000"
    using assms by arith+
  have "zfill (Suc 7) (str_nat n) = zfill 7 (str_nat (n div 10)) @ [digit_char n]"
    by (rule zfill_step) simp
  moreover have "zfill (Suc 6) (str_nat (n div 10)) =
      zfill 6 (str_nat (n div 10 div 10)) @ [digit_char (n div 10)]"
    by (rule zfill_step) simp
  moreover have "zfill (Suc 5) (str_nat (n div 100)) =
      zfill 5 (str_nat (n div 100 div 10)) @ [digit_char (n div 100)]"
    by (rule zfill_step) simp
  moreover have "zfill (Suc 4) (str_nat (n div 1000)) =
      zfill 4 (str_nat (n div 1000 div 10)) @ [digit_char (n div 1000)]"
    by (rule zfill_step) simp
  moreover have "zfill 4 (str_nat (n div 10000)) =
     [digit_char (n div 10000 div 1000), digit_char (n div 10000 div 100),
      digit_char (n div 10000 div 10), digit_char (n div 10000)]"
    using d(7) by (rule four_digits)
  moreover have "Suc 7 = 8" "Suc 6 = 7" "Suc 5 = 6" "Suc 4 = 5" by simp_all
  ultimately show ?thesis by (simp add: d)
qed

subsection \<open>Row keys: matching the format\<close>

lemma key_text_digits:
  assumes "d < 100" "m < 100" "y < 10000"
  shows "key_text (y, m, d) =
     [digit_char (d div 10), digit_char d, digit_char (m div 10), digit_char m,
      digit_char (y div 1000), digit_char (y div 100), digit_char (y div 10), digit_char y]"
  unfolding key_text_def day_of_def month_of_def year_of_def
  using two_digits [OF assms(1)] two_digits [OF assms(2)] four_digits [OF assms(3)]
  by simp

lemma split_two:
  assumes "(n::nat) \<le> 39"
  obtains t u where "n = 10 * t + u" "t = 0 \<or> t = 1 \<or> t = 2 \<or> t = 3"
    "u = 0 \<or> u = 1 \<or> u = 2 \<or> u = 3 \<or> u = 4 \<or> u = 5 \<or> u = 6 \<or> u = 7 \<or> u = 8 \<or> u = 9"
proof -
  have 1: "n = 10 * (n div 10) + n mod 10" by simp
  have 2: "n div 10 = 0 \<or> n div 10 = 1 \<or> n div 10 = 2 \<or> n div 10 = 3"
    using assms by arith
  have "n mod 10 < 10" by simp
  then have 3: "n mod 10 = 0 \<or> n mod 10 = 1 \<or> n mod 10 = 2 \<or> n mod 10 = 3 \<or> n mod 10 = 4 \<or>
      n mod 10 = 5 \<or> n mod 10 = 6 \<or> n mod 10 = 7 \<or> n mod 10 = 8 \<or> n mod 10 = 9"
    by (rule below_ten)
  show ?thesis using that [OF 1 2 3] .
qed


lemma match_d_two:
  assumes "1 \<le> d" "d \<le> 31"
  shows "\<exists>xs. match_d (digit_char (d div 10) # digit_char d # r) = (d, r) # xs"
proof -
  from assms(2) have "d \<le> 39" by simp
  then obtain t u where "d = 10 * t + u" "t = 0 \<or> t = 1 \<or> t = 2 \<or> t = 3"
    "u = 0 \<or> u = 1 \<or> u = 2 \<or> u = 3 \<or> u = 4 \<or> u = 5 \<or> u = 6 \<or> u = 7 \<or> u = 8 \<or> u = 9"
    by (rule split_two)
  then show ?thesis using assms
    by (elim disjE; simp add: match_d_def digit_char_def digit_val_def is_digit_def)
qed


lemma digits_val_four:
  "digits_val [a, b, c, e] = 1000 * digit_val a + 100 * digit_val b + 10 * digit_val c + digit_val e"
  by (simp add: digits_val_def)

lemma four_digit_sum:
  fixes y :: nat
  assumes "y = 10 * q1 + r0" "q1 = 10 * q2 + r1" "q2 = 10 * q3 + r2"
  shows "1000 * q3 + 100 * r2 + 10 * r1 + r0 = y"
  using assms by simp

lemma four_digit_value:
  fixes y :: nat
  assumes "y < 10000"
  shows "1000 * (y div 1000) + 100 * (y div 100 mod 10) + 10 * (y div 10 mod 10) + y mod 10 = y"
proof -
  have e: "y div 10 div 10 = y div 100" "y div 100 div 10 = y div 1000" by arith+
  have a: "y = 10 * (y div 10) + y mod 10" by simp
  have "y div 10 = 10 * (y div 10 div 10) + y div 10 mod 10" by simp
  then have b: "y div 10 = 10 * (y div 100) + y div 10 mod 10" unfolding e .
  have "y div 100 = 10 * (y div 100 div 10) + y div 100 mod 10" by simp
  then have c: "y div 100 = 10 * (y div 1000) + y div 100 mod 10" unfolding e .
  show ?thesis by (rule four_digit_sum [OF a b c])
qed

lemma match_m_two:
  assumes "1 \<le> m" "m \<le> 12"
  shows "\<exists>xs. match_m (digit_char (m div 10) # digit_char m # r) = (m, r) # xs"
proof -
  have "m = 1 \<or> m = 2 \<or> m = 3 \<or> m = 4 \<or> m = 5 \<or> m = 6 \<or> m = 7 \<or> m = 8 \<or> m = 9 \<or>
        m = 10 \<or> m = 11 \<or> m = 12"
    using assms by arith
  then show ?thesis
    by (elim disjE) (simp_all add: match_m_def digit_char_def digit_val_def)
qed

lemma match_Y_four:
  assumes "y < 10000"
  shows "match_Y (digit_char (y div 1000) # digit_char (y div 100) # digit_char (y div 10) #
           digit_char y # r) = [(y, r)]"
  using four_digit_value [OF assms] assms
  by (simp add: match_Y_def digit_char_props digits_val_four)

lemma div_shift: "(r::nat) < c \<Longrightarrow> (q * c + r) div c = q"
  by simp

lemma mod_shift: "(r::nat) < c \<Longrightarrow> (q * c + r) mod c = r"
  by simp

lemma high_digit: "0 < (c::nat) \<Longrightarrow> (q * (10 * c) + r) div c mod 10 = r div c mod 10"
proof -
  assume c: "0 < c"
  have "q * (10 * c) + r = (q * 10) * c + r" by simp
  then have "(q * (10 * c) + r) div c = q * 10 + r div c"
    using c by (simp only: div_mult_self3) 
  then show ?thesis by simp
qed


lemma key_number_digits:
  fixes d m y :: nat
  assumes m: "m < 100" and y: "y < 10000"
  defines "N \<equiv> d * 1000000 + m * 10000 + y"
  shows "N div 10000000 mod 10 = d div 10 mod 10"
    and "N div 1000000 mod 10 = d mod 10"
    and "N div 100000 mod 10 = m div 10 mod 10"
    and "N div 10000 mod 10 = m mod 10"
    and "N div 1000 mod 10 = y div 1000 mod 10"
    and "N div 100 mod 10 = y div 100 mod 10"
    and "N div 10 mod 10 = y div 10 mod 10"
    and "N mod 10 = y mod 10"
proof -
  let ?r = "m * 10000 + y"
  have r: "?r < 1000000" using m y by linarith
  have n6: "N = d * 1000000 + ?r" by (simp add: N_def)
  have d6: "N div 1000000 = d" unfolding n6 using r by (rule div_shift)
  have "N div (1000000 * 10) = N div 1000000 div 10" by (rule div_mult2_eq)
  then have d7: "N div 10000000 = d div 10" using d6 by simp
  show "N div 10000000 mod 10 = d div 10 mod 10" using d7 by simp
  show "N div 1000000 mod 10 = d mod 10" using d6 by simp
  have r4: "?r div 10000 = m" using y by (rule div_shift)
  have "?r div (10000 * 10) = ?r div 10000 div 10" by (rule div_mult2_eq)
  then have r5: "?r div 100000 = m div 10" using r4 by simp
  have n5: "N = d * (10 * 100000) + ?r" by (simp add: N_def)
  have "N div 100000 mod 10 = ?r div 100000 mod 10" unfolding n5 by (rule high_digit) simp
  then show "N div 100000 mod 10 = m div 10 mod 10" using r5 by simp
  have n4: "N = (d * 10) * (10 * 10000) + ?r" by (simp add: N_def)
  have "N div 10000 mod 10 = ?r div 10000 mod 10" unfolding n4 by (rule high_digit) simp
  then show "N div 10000 mod 10 = m mod 10" using r4 by simp
  have n3: "N = (d * 100 + m) * (10 * 1000) + y" by (simp add: N_def)
  show "N div 1000 mod 10 = y div 1000 mod 10" unfolding n3 by (rule high_digit) simp
  have n2: "N = ((d * 100 + m) * 10) * (10 * 100) + y" by (simp add: N_def)
  show "N div 100 mod 10 = y div 100 mod 10" unfolding n2 by (rule high_digit) simp
  have n1: "N = ((d * 100 + m) * 100) * (10 * 10) + y" by (simp add: N_def)
  show "N div 10 mod 10 = y div 10 mod 10" unfolding n1 by (rule high_digit) simp
  have n0: "N = ((d * 100 + m) * 1000) * 10 + y" by (simp add: N_def)
  show "N mod 10 = y mod 10" unfolding n0 by (simp only: mod_mult_self3)
qed

lemma valid_date_bounds:
  assumes "valid_date (y, m, d)"
  shows "1 \<le> d" "d \<le> 31" "1 \<le> m" "m \<le> 12" "1 \<le> y" "y < 10000"
  using assms
  by (auto simp: valid_date_def year_of_def month_of_def day_of_def days_in_month_def
      split: if_splits)

lemma regex_dmY_key_text:
  assumes "valid_date (y, m, d)"
  shows "\<exists>rest. regex_dmY (key_text (y, m, d)) = ((y, m, d), []) # rest"
proof -
  note b = valid_date_bounds [OF assms]
  let ?Y = "[digit_char (y div 1000), digit_char (y div 100), digit_char (y div 10), digit_char y]"
  let ?M = "digit_char (m div 10) # digit_char m # ?Y"
  have kt: "key_text (y, m, d) = digit_char (d div 10) # digit_char d # ?M"
    using b by (simp add: key_text_digits)
  obtain xs where md: "match_d (digit_char (d div 10) # digit_char d # ?M) = (d, ?M) # xs"
    using match_d_two [OF b(1) b(2)] by blast
  obtain ys where mm: "match_m ?M = (m, ?Y) # ys"
    using match_m_two [OF b(3) b(4)] by blast
  have my: "match_Y ?Y = [(y, [])]"
    using match_Y_four [OF b(6), of "[]"] by simp
  have "regex_dmY (digit_char (d div 10) # digit_char d # ?M) =
          ((y, m, d), []) #
          (concat (map (\<lambda>(m, r2). map (\<lambda>(y, r3). ((y, m, d), r3)) (match_Y r2)) ys) @
           concat (map (\<lambda>(d, r1). concat (map (\<lambda>(m, r2). map (\<lambda>(y, r3). ((y, m, d), r3))
             (match_Y r2)) (match_m r1))) xs))"
    unfolding regex_dmY_def md by (simp add: mm my)
  then show ?thesis unfolding kt by blast
qed

lemma key_text_length: "valid_date d \<Longrightarrow> length (key_text d) = 8"
  using valid_date_bounds [of "fst d" "fst (snd d)" "snd (snd d)"]
    key_text_digits [of "snd (snd d)" "fst (snd d)" "fst d"]
  by simp

lemma not_nat_string: "length s = 8 \<Longrightarrow> s \<notin> set nat_strings"
  by (auto simp: nat_strings_def)

lemma coerced_key_text:
  assumes "valid_date d" "in_timestamp_bounds d"
  shows "coerced_key (KStr (key_text d)) = Timestamp d"
proof -
  obtain y m dd where d: "d = (y, m, dd)" by (cases d) auto
  have l: "length (key_text d) = 8" using assms(1) by (rule key_text_length)
  then have z: "zfill 8 (key_text d) = key_text d" by (simp add: zfill_def)
  obtain rest where r: "regex_dmY (key_text d) = (d, []) # rest"
    using regex_dmY_key_text assms(1) d by blast
  show ?thesis
    using assms not_nat_string [OF l]
    by (simp add: coerced_key_def z strptime_coerce_def r)
qed

lemma digit_char_cong: "a mod 10 = b mod 10 \<Longrightarrow> digit_char a = digit_char b"
  by (simp add: digit_char_def)

lemma key_number_text:
  assumes "valid_date (y, m, d)"
  shows "zfill 8 (py_str (KInt (key_number (y, m, d)))) = key_text (y, m, d)"
proof -
  note b = valid_date_bounds [OF assms]
  let ?N = "d * 1000000 + m * 10000 + y"
  have m100: "m < 100" and d100: "d < 100" using b by simp_all
  have small: "?N < 100000000" using b by linarith
  have "key_number (y, m, d) = int ?N"
    by (simp add: key_number_def day_of_def month_of_def year_of_def)
  then have s: "py_str (KInt (key_number (y, m, d))) = str_nat ?N"
    by (simp only: py_str.simps str_int_def of_nat_less_0_iff if_False nat_int)
  note k = key_number_digits [OF m100 b(6), of d]
  have "zfill 8 (str_nat ?N) =
     [digit_char (d div 10), digit_char d, digit_char (m div 10), digit_char m,
      digit_char (y div 1000), digit_char (y div 100), digit_char (y div 10), digit_char y]"
    unfolding eight_digits [OF small]
    using k [THEN digit_char_cong] by (simp add: digit_char_mod)
  then show ?thesis unfolding s using key_text_digits [OF d100 m100 b(6)] by simp
qed

lemma coerced_key_number:
  assumes "valid_date d" "in_timestamp_bounds d"
  shows "coerced_key (KInt (key_number d)) = Timestamp d"
proof -
  obtain y m dd where d: "d = (y, m, dd)" by (cases d) auto
  have "zfill 8 (py_str (KInt (key_number d))) = key_text d"
    using key_number_text assms(1) d by blast
  moreover have "zfill 8 (py_str (KStr (key_text d))) = key_text d"
    using key_text_length [OF assms(1)] by (simp add: zfill_def)
  ultimately have "coerced_key (KInt (key_number d)) = coerced_key (KStr (key_text d))"
    by (simp add: coerced_key_def)
  then show ?thesis using coerced_key_text [OF assms] by simp
qed

subsection \<open>Row keys: what a match tells about the text\<close>













lemma to_numeric_raise_length:
  "to_numeric_raise pos ss = Inr vs \<Longrightarrow> length vs = length ss"
  by (induction ss arbitrary: pos vs) (auto split: option.splits sum.splits)

lemma index_is_coerced:
  "to_datetime_coerce regex_dmY (map (\<lambda>x. zfill 8 (py_str x)) ks) = map coerced_key ks"
  by (simp add: to_datetime_coerce_def coerced_key_def)

lemma Date_of_zip:
  assumes "length df = length idx" "length idx = length cs" "length cs = length vs"
  shows "map Date (map (\<lambda>(r, i, c, v).
            \<lparr>Date = i, Tipo = Tipo r, Moeda = Moeda r, Compra = c, Venda = v\<rparr>)
          (zip df (zip idx (zip cs vs)))) = idx"
  using assms by (induction df idx cs vs rule: list_induct4) simp_all

lemma sort_index_Date_mset: "mset (map Date (sort_index tbl)) = mset (map Date tbl)"
proof -
  have "image_mset Date (mset (sort_index tbl)) = image_mset Date (mset tbl)"
    by (simp only: sort_index_mset)
  then show ?thesis by (simp only: mset_map)
qed

lemma sort_index_length: "length (sort_index tbl) = length tbl"
  using sort_index_mset [of tbl] by (metis size_mset)

lemma clean_data_index:
  assumes "SearchCurrencyPrice_clean_data raw = Inr df"
  shows "length df = length raw \<and>
         mset (map Date df) = mset (map (\<lambda>r. coerced_key (Date r)) raw)"
proof -
  let ?idx = "map coerced_key (map Date raw)"
  let ?C = "to_numeric_raise 0 (map str_replace_comma (map Compra raw))"
  let ?V = "to_numeric_raise 0 (map str_replace_comma (map Venda raw))"
  have unf: "SearchCurrencyPrice_clean_data raw =
      (case ?C of Inl e \<Rightarrow> Inl e
       | Inr compra \<Rightarrow> (case ?V of Inl e \<Rightarrow> Inl e
           | Inr venda \<Rightarrow> Inr (sort_index (map (\<lambda>(r, i, c, v).
               \<lparr>Date = i, Tipo = Tipo r, Moeda = Moeda r, Compra = c, Venda = v\<rparr>)
               (zip raw (zip ?idx (zip compra venda)))))))"
    unfolding SearchCurrencyPrice_clean_data_def Let_def index_is_coerced ..
  obtain cs where c: "?C = Inr cs"
    using assms unfolding unf by (cases ?C) simp_all
  obtain vs where v: "?V = Inr vs"
    using assms unfolding unf c by (cases ?V) simp_all
  define tbl where "tbl = map (\<lambda>(r, i, c, v).
            \<lparr>Date = i, Tipo = Tipo r, Moeda = Moeda r, Compra = c, Venda = v\<rparr>)
          (zip raw (zip ?idx (zip cs vs)))"
  have "SearchCurrencyPrice_clean_data raw = Inr (sort_index tbl)"
    unfolding unf c v tbl_def by (simp only: sum.case)
  then have df: "df = sort_index tbl" using assms by simp
  have lc: "length cs = length raw" using to_numeric_raise_length [OF c] by simp
  have lv: "length vs = length raw" using to_numeric_raise_length [OF v] by simp
  have d: "map Date tbl = ?idx"
    unfolding tbl_def by (rule Date_of_zip) (simp_all add: lc lv)
  have lr: "length tbl = length raw" unfolding tbl_def by (simp add: lc lv)
  have i: "?idx = map (\<lambda>r. coerced_key (Date r)) raw" by simp
  have "mset (map Date df) = mset ?idx"
    unfolding df sort_index_Date_mset d ..
  moreover have "length df = length raw"
    unfolding df sort_index_length lr ..
  ultimately show ?thesis unfolding i by blast
qed


subsection \<open>Row keys: the results\<close>




text \<open>
  C10, as the code has it. The index of a returned table consists of the keys of the raw
  rows, each turned into text, padded with zeros on the left to eight characters and then
  parsed. So the number that the key of a calendar date becomes when its leading zeros are
  lost has, after padding, the text of the key again; and when the date lies within the
  range of the timestamp type, 1677-09-22 to 2262-04-11, it is coerced to that date, not to
  \<open>NaT\<close>.
\<close>

theorem padded_key_number:
  "(SearchCurrencyPrice_clean_data raw = Inr df \<longrightarrow>
      mset (map Date df) =
        mset (map (\<lambda>r. strptime_coerce regex_dmY (zfill 8 (py_str (Date r)))) raw)) \<and>
   (valid_date d \<longrightarrow> zfill 8 (py_str (KInt (key_number d))) = key_text d) \<and>
   (valid_date d \<and> in_timestamp_bounds d \<longrightarrow>
      strptime_coerce regex_dmY (zfill 8 (py_str (KInt (key_number d)))) = Timestamp d)"
proof (intro conjI impI)
  assume c: "SearchCurrencyPrice_clean_data raw = Inr df"
  from clean_data_index [OF c]
  show "mset (map Date df) =
        mset (map (\<lambda>r. strptime_coerce regex_dmY (zfill 8 (py_str (Date r)))) raw)"
    by (simp add: coerced_key_def)
next
  assume v: "valid_date d"
  obtain y m dd where d: "d = (y, m, dd)" by (cases d) auto
  show "zfill 8 (py_str (KInt (key_number d))) = key_text d"
    using key_number_text v d by blast
next
  assume v: "valid_date d \<and> in_timestamp_bounds d"
  then have "coerced_key (KInt (key_number d)) = Timestamp d"
    using coerced_key_number by blast
  then show "strptime_coerce regex_dmY (zfill 8 (py_str (KInt (key_number d)))) = Timestamp d"
    by (simp add: coerced_key_def)
qed

theorem padded_key_number_witness:
  "(valid_date (2021, 1, 1) \<and> in_timestamp_bounds (2021, 1, 1)) \<and>
   key_number (2021, 1, 1) = 1012021 \<and>
   zfill 8 (py_str (KInt 1012021)) = ''01012021'' \<and>
   strptime_coerce regex_dmY (zfill 8 (py_str (KInt 1012021))) = Timestamp (2021, 1, 1) \<and>
   SearchCurrencyPrice_clean_data
     [\<lparr>Date = KInt 1012021, Tipo = ''A'', Moeda = ''USD'', Compra = ''5,2345'', Venda = ''5,2351''\<rparr>] =
   Inr [\<lparr>Date = Timestamp (2021, 1, 1), Tipo = ''A'', Moeda = ''USD'',
         Compra = Finite (52345 / 10000), Venda = Finite (52351 / 10000)\<rparr>]"
proof -
  let ?raw = "[\<lparr>Date = KInt 1012021, Tipo = ''A'', Moeda = ''USD'', Compra = ''5,2345'',
                Venda = ''5,2351''\<rparr>]"
  let ?out = "[\<lparr>Date = Timestamp (2021, 1, 1), Tipo = ''A'', Moeda = ''USD'',
         Compra = Finite (52345 / 10000), Venda = Finite (52351 / 10000)\<rparr>]"
  have h1: "valid_date (2021, 1, 1) \<and> in_timestamp_bounds (2021, 1, 1)" by code_simp
  have kn: "key_number (2021, 1, 1) = 1012021" by code_simp
  have kt: "key_text (2021, 1, 1) = ''01012021''" by code_simp
  have h3: "SearchCurrencyPrice_clean_data ?raw = Inr ?out" by code_simp
  note t = padded_key_number [of ?raw ?out "(2021, 1, 1)"]
  from t h1 have c: "zfill 8 (py_str (KInt (key_number (2021, 1, 1)))) = key_text (2021, 1, 1) \<and>
      strptime_coerce regex_dmY (zfill 8 (py_str (KInt (key_number (2021, 1, 1))))) =
        Timestamp (2021, 1, 1)"
    by blast
  show ?thesis using h1 kn c [unfolded kn kt] h3 by blast
qed

text \<open>
  The key of 1 January 1600 read as a number is 1011600. Padding gives its eight-digit text
  back, but the date is outside the range of the timestamp type and the result is \<open>NaT\<close>.
\<close>

theorem padded_key_number_out_of_range:
  "valid_date (1600, 1, 1) \<and>
   key_number (1600, 1, 1) = 1011600 \<and>
   zfill 8 (py_str (KInt 1011600)) = ''01011600'' \<and>
   strptime_coerce regex_dmY (zfill 8 (py_str (KInt 1011600))) = NaT"
  by code_simp

text \<open>Without the padding the same number would be read as the tenth of January.\<close>

lemma unpadded_key_misreads:
  "strptime_coerce regex_dmY (py_str (KInt 1012021)) = Timestamp (2021, 1, 10)"
  by code_simp

end
